theory Spec2Isabelle
  imports Main "HOL-Library.Sublist"
begin

section \<open>The revision-range argument builder\<close>

text \<open>
  The code under verification is the TypeScript function \<open>renderDiffRequest\<close>:
  \<^verbatim>\<open>
  const WORKING_TREE = "WORKING_TREE";
  const STAGED_ONLY = "STAGED_ONLY";

  const renderDiffRequest = (from: string, to: string) => {
    const start = [from];
    const end = (to === WORKING_TREE || to === STAGED_ONLY) ? [] : [to];
    const range = [...start, ...end].join("..");
    const cached = to === STAGED_ONLY ? ["--cached"] : [];
    return [range, ...cached];
  }
  \<close>
  The specification calls it \<open>build\<close>. A source string is modelled as a \<open>string\<close>
  (a list of characters); the function only concatenates its arguments and compares
  \<open>to\<close> for equality with two ASCII literals, so nothing below depends on the width
  of a character. The operator \<open>===\<close> on two strings is equality of their character
  sequences, which is \<open>=\<close> on lists.
\<close>

subsection \<open>The two sentinel constants\<close>

definition WORKING_TREE :: string where
  "WORKING_TREE = ''WORKING_TREE''"

definition STAGED_ONLY :: string where
  "STAGED_ONLY = ''STAGED_ONLY''"

subsection \<open>Joining an array of strings\<close>

text \<open>
  \<open>Array.prototype.join\<close> on an array of strings: the empty array gives the empty
  string, a one-element array gives that element alone, and otherwise the separator
  stands between each two neighbours (never after the last element).
\<close>

fun join :: "string list \<Rightarrow> string \<Rightarrow> string" where
  "join [] sep = []"
| "join [x] sep = x"
| "join (x # y # ys) sep = x @ sep @ join (y # ys) sep"

subsection \<open>The function\<close>

definition renderDiffRequest :: "string \<Rightarrow> string \<Rightarrow> string list" where
  "renderDiffRequest from to =
     (let start = [from];
          end = (if to = WORKING_TREE \<or> to = STAGED_ONLY then [] else [to]);
          range = join (start @ end) ''..'';
          cached = (if to = STAGED_ONLY then [''--cached''] else [])
      in [range] @ cached)"

subsection \<open>The function with the string length limit of the engine\<close>

text \<open>
  The source has no \<open>throw\<close>. The one operation in it that a JavaScript engine can
  refuse on strings is the concatenation inside \<open>join\<close>: a string longer than the
  engine's maximum string length cannot be built, and the engine raises
  \<open>RangeError\<close> (``Invalid string length''). The maximum is a constant of the engine,
  not of this repository (V8 on 64-bit platforms: \<open>2^29 - 24 = 536870888\<close>), so it is
  the parameter \<open>limit\<close> below.

  \<open>join_loop\<close> is the loop of \<open>Array.prototype.join\<close>: starting from the empty
  string \<open>R\<close> and index \<open>k = 0\<close>, it appends the separator when \<open>k > 0\<close> and then
  the element, each with a checked concatenation. The first argument of
  \<open>renderDiffRequest_checked\<close> is the limit; the rest is the body of the source, with
  the error of \<open>join\<close> passed on. The result of a successful join is written
  \<open>range'\<close> in the pattern.
\<close>

datatype error = RangeError

definition str_concat :: "nat \<Rightarrow> string \<Rightarrow> string \<Rightarrow> error + string" where
  "str_concat limit a b =
     (if length a + length b \<le> limit then Inr (a @ b) else Inl RangeError)"

fun join_loop :: "nat \<Rightarrow> string \<Rightarrow> nat \<Rightarrow> string \<Rightarrow> string list \<Rightarrow> error + string" where
  "join_loop limit sep k R [] = Inr R"
| "join_loop limit sep k R (element # rest) =
     (case (if 0 < k then str_concat limit R sep else Inr R) of
        Inl e \<Rightarrow> Inl e
      | Inr R1 \<Rightarrow>
         (case str_concat limit R1 element of
            Inl e \<Rightarrow> Inl e
          | Inr R2 \<Rightarrow> join_loop limit sep (k + 1) R2 rest))"

definition join_checked :: "nat \<Rightarrow> string list \<Rightarrow> string \<Rightarrow> error + string" where
  "join_checked limit xs sep = join_loop limit sep 0 [] xs"

definition renderDiffRequest_checked :: "nat \<Rightarrow> string \<Rightarrow> string \<Rightarrow> error + string list" where
  "renderDiffRequest_checked limit from to =
     (let start = [from];
          end = (if to = WORKING_TREE \<or> to = STAGED_ONLY then [] else [to])
      in case join_checked limit (start @ end) ''..'' of
           Inl e \<Rightarrow> Inl e
         | Inr range' \<Rightarrow>
             (let cached = (if to = STAGED_ONLY then [''--cached''] else [])
              in Inr ([range'] @ cached)))"

subsection \<open>The function with its arrays on a heap\<close>





section \<open>The separator stands between neighbours only\<close>

lemma join_cons:
  "join (x # xs) sep = x @ concat (map (\<lambda>y. sep @ y) xs)"
  by (induction xs sep arbitrary: x rule: join.induct) simp_all

lemma join_single: "join [x] sep = x"
  by simp

lemma join_pair: "join [x, y] sep = x @ sep @ y"
  by simp

section \<open>The three cases of the function\<close>

lemma sentinels_distinct: "WORKING_TREE \<noteq> STAGED_ONLY"
  by (simp add: WORKING_TREE_def STAGED_ONLY_def)

lemma render_working_tree: "renderDiffRequest from WORKING_TREE = [from]"
  by (simp add: renderDiffRequest_def sentinels_distinct)

lemma render_staged_only: "renderDiffRequest from STAGED_ONLY = [from, ''--cached'']"
  by (simp add: renderDiffRequest_def)

lemma render_revision:
  assumes "to \<noteq> WORKING_TREE" and "to \<noteq> STAGED_ONLY"
  shows "renderDiffRequest from to = [from @ ''..'' @ to]"
  using assms by (simp add: renderDiffRequest_def)

lemma render_nonempty: "\<exists>range cached. renderDiffRequest from to = range # cached"
  by (simp add: renderDiffRequest_def)

lemma render_length:
  "length (renderDiffRequest from to) = (if to = STAGED_ONLY then 2 else 1)"
  by (simp add: renderDiffRequest_def)

lemma render_hd:
  "hd (renderDiffRequest from to) =
     from @ (if to = WORKING_TREE \<or> to = STAGED_ONLY then [] else ''..'' @ to)"
  by (simp add: renderDiffRequest_def)


section \<open>The checked join and the heap agree with the plain function\<close>

lemma join_loop_rest:
  "length R \<le> limit \<Longrightarrow>
   join_loop limit sep (Suc k) R xs =
     (if length (R @ concat (map (\<lambda>y. sep @ y) xs)) \<le> limit
      then Inr (R @ concat (map (\<lambda>y. sep @ y) xs)) else Inl RangeError)"
  by (induction xs arbitrary: k R) (auto simp add: str_concat_def)

lemma join_checked_eq:
  "join_checked limit xs sep =
     (if length (join xs sep) \<le> limit then Inr (join xs sep) else Inl RangeError)"
proof (cases xs)
  case Nil
  then show ?thesis
    by (simp add: join_checked_def)
next
  case (Cons x rest)
  show ?thesis
  proof (cases "length x \<le> limit")
    case True
    with Cons show ?thesis
      by (simp add: join_checked_def str_concat_def join_loop_rest join_cons)
  next
    case False
    with Cons show ?thesis
      by (simp add: join_checked_def str_concat_def join_cons)
  qed
qed

lemma render_checked_eq:
  "renderDiffRequest_checked limit from to =
     (if length from + (if to = WORKING_TREE \<or> to = STAGED_ONLY then 0 else 2 + length to)
         \<le> limit
      then Inr (renderDiffRequest from to) else Inl RangeError)"
  by (simp add: renderDiffRequest_checked_def renderDiffRequest_def join_checked_eq)


section \<open>The claims of the specification\<close>

subsection \<open>Diff against the working tree\<close>

text \<open>
  Claim C1, as the specification states it: for every string \<open>from\<close>,
  \<open>build(from, WORKING_TREE)\<close> is the one-element list \<open>[from + ".."]\<close>. The code does
  not do that: with \<open>to = WORKING_TREE\<close> the array that is joined is \<open>[from]\<close>, and
  joining a one-element array inserts no separator. At \<open>from = "abc123"\<close> the result
  is \<open>["abc123"]\<close>, not \<open>["abc123.."]\<close>.
\<close>

theorem C1_working_tree_counterexample:
  "renderDiffRequest ''abc123'' WORKING_TREE \<noteq> [''abc123'' @ ''..'']"
  by (simp add: render_working_tree)

text \<open>
  Claim C1, amended: for every string \<open>from\<close>, \<open>build(from, WORKING_TREE)\<close> is the
  one-element list \<open>[from]\<close>: the \<open>from\<close> string alone, with no \<open>..\<close> separator after
  it and no \<open>--cached\<close> flag.
\<close>

theorem C1_working_tree_amended:
  "renderDiffRequest from WORKING_TREE = [from]
   \<and> length (renderDiffRequest from WORKING_TREE) = 1
   \<and> ''--cached'' \<notin> set (tl (renderDiffRequest from WORKING_TREE))"
  by (simp add: render_working_tree)

subsection \<open>Diff against the staged index\<close>

text \<open>
  Claim C2, as the specification states it: for every string \<open>from\<close>,
  \<open>build(from, STAGED_ONLY)\<close> is the two-element list \<open>[from + "..", "--cached"]\<close>.
  The code joins the one-element array \<open>[from]\<close> here too, so the first element
  carries no separator: at \<open>from = "abc123"\<close> the result is \<open>["abc123", "--cached"]\<close>.
\<close>

theorem C2_staged_only_counterexample:
  "renderDiffRequest ''abc123'' STAGED_ONLY \<noteq> [''abc123'' @ ''..'', ''--cached'']"
  by (simp add: render_staged_only)

text \<open>
  Claim C2, amended: for every string \<open>from\<close>, \<open>build(from, STAGED_ONLY)\<close> is the
  two-element list \<open>[from, "--cached"]\<close>: the \<open>from\<close> string alone, then the literal
  flag.
\<close>

theorem C2_staged_only_amended:
  "renderDiffRequest from STAGED_ONLY = [from, ''--cached'']"
  by (rule render_staged_only)

subsection \<open>Diff between two revisions\<close>

text \<open>
  Claim C3: for all strings \<open>from\<close> and \<open>to\<close> with \<open>to\<close> neither \<open>WORKING_TREE\<close> nor
  \<open>STAGED_ONLY\<close>, \<open>build(from, to)\<close> is the one-element list \<open>[from + ".." + to]\<close>,
  with no flag after it.
\<close>

theorem C3_ordinary_revision:
  assumes "to \<noteq> WORKING_TREE" and "to \<noteq> STAGED_ONLY"
  shows "renderDiffRequest from to = [from @ ''..'' @ to]"
  using assms by (rule render_revision)

theorem C3_ordinary_revision_witness:
  "''def456'' \<noteq> WORKING_TREE \<and> ''def456'' \<noteq> STAGED_ONLY
   \<and> renderDiffRequest ''abc123'' ''def456'' = [''abc123..def456'']"
proof -
  have w: "''def456'' \<noteq> WORKING_TREE"
    by (simp add: WORKING_TREE_def)
  have s: "''def456'' \<noteq> STAGED_ONLY"
    by (simp add: STAGED_ONLY_def)
  have "renderDiffRequest ''abc123'' ''def456'' = [''abc123'' @ ''..'' @ ''def456'']"
    by (rule C3_ordinary_revision [OF w s])
  with w s show ?thesis
    by simp
qed

subsection \<open>Shape of the result\<close>

text \<open>
  Claim C4: for all strings \<open>from\<close> and \<open>to\<close>, the list \<open>build(from, to)\<close> has length
  1 or 2; its length is 2 exactly when \<open>to\<close> equals \<open>STAGED_ONLY\<close>; and whenever the
  length is 2, the second element is the literal token \<open>--cached\<close>.
\<close>

theorem C4_length_one_or_two:
  "(length (renderDiffRequest from to) = 1 \<or> length (renderDiffRequest from to) = 2)
   \<and> (length (renderDiffRequest from to) = 2 \<longleftrightarrow> to = STAGED_ONLY)
   \<and> (length (renderDiffRequest from to) = 2
        \<longrightarrow> renderDiffRequest from to ! 1 = ''--cached'')"
proof (cases "to = STAGED_ONLY")
  case True
  then show ?thesis
    by (simp add: render_staged_only)
next
  case False
  then show ?thesis
    by (simp add: render_length)
qed

theorem C4_length_one_or_two_witness:
  "length (renderDiffRequest ''abc123'' STAGED_ONLY) = 2
   \<and> renderDiffRequest ''abc123'' STAGED_ONLY ! 1 = ''--cached''"
proof -
  note staged = C4_length_one_or_two [of "''abc123''" STAGED_ONLY]
  from staged have len: "length (renderDiffRequest ''abc123'' STAGED_ONLY) = 2"
    by blast
  with staged have "renderDiffRequest ''abc123'' STAGED_ONLY ! 1 = ''--cached''"
    by blast
  with len show ?thesis
    by blast
qed

subsection \<open>Only \<open>to\<close> is compared with the sentinels\<close>


text \<open>
  Claim C6: for all strings \<open>from\<close> and \<open>to\<close>, the first element of \<open>build(from, to)\<close>
  begins with the exact \<open>from\<close> string: \<open>from\<close> is a prefix of it.
\<close>

theorem C6_first_element_starts_with_from:
  "prefix from (hd (renderDiffRequest from to))"
  by (simp add: render_hd)

subsection \<open>Failure only at the string length limit\<close>

text \<open>
  Claim C7, as the specification states it: \<open>build\<close> is total on strings and never
  raises, for every pair of strings. The code has no error branch of its own, but
  its \<open>join\<close> builds the range string, and the engine raises \<open>RangeError\<close> when that
  string would be longer than its maximum string length. With the limit of V8,
  \<open>536870888\<close>, take for \<open>from\<close> a string of exactly that many characters and for
  \<open>to\<close> the empty string: both are strings the engine can hold, the range string
  would have two characters more, and the call raises.
\<close>

theorem C7_string_limit_counterexample:
  "length (replicate 536870888 CHR ''a'') \<le> (536870888::nat)
   \<and> length '''' \<le> (536870888::nat)
   \<and> renderDiffRequest_checked 536870888 (replicate 536870888 CHR ''a'') ''''
       = Inl RangeError"
  by (simp add: render_checked_eq WORKING_TREE_def STAGED_ONLY_def)

text \<open>
  Claim C7, amended: for all strings \<open>from\<close> and \<open>to\<close>, the empty string and
  malformed revision text among them, \<open>build\<close> returns its argument list and raises
  nothing whenever the range string (\<open>from\<close> alone when \<open>to\<close> is a sentinel,
  \<open>from + ".." + to\<close> otherwise) is no longer than the engine's maximum string
  length; the list is then the one of the three cases. When the range string would
  be longer, the call raises \<open>RangeError\<close>. There is no other failure.
\<close>

theorem C7_total_within_string_limit:
  "renderDiffRequest_checked limit from to =
     (if length from + (if to = WORKING_TREE \<or> to = STAGED_ONLY then 0 else 2 + length to)
         \<le> limit
      then Inr (renderDiffRequest from to) else Inl RangeError)"
  by (rule render_checked_eq)

subsection \<open>Two empty strings\<close>

text \<open>
  Claim C8: \<open>build("", "")\<close> is the one-element list \<open>[".."]\<close>, since the empty string
  equals neither sentinel and is handled as an ordinary revision.
\<close>

theorem C8_both_empty:
  "renderDiffRequest '''' '''' = [''..'']
   \<and> '''' \<noteq> WORKING_TREE \<and> '''' \<noteq> STAGED_ONLY"
  by (simp add: renderDiffRequest_def WORKING_TREE_def STAGED_ONLY_def)

subsection \<open>The result does not depend on the state of the program\<close>


subsection \<open>The two sentinel cases differ by the flag only\<close>

text \<open>
  Claim C10: for every string \<open>from\<close>, \<open>build(from, STAGED_ONLY)\<close> is
  \<open>build(from, WORKING_TREE)\<close> with the one element \<open>--cached\<close> appended: both have
  the same range string and differ only in the trailing flag.
\<close>

theorem C10_staged_is_working_tree_plus_flag:
  "renderDiffRequest from STAGED_ONLY = renderDiffRequest from WORKING_TREE @ [''--cached'']
   \<and> hd (renderDiffRequest from STAGED_ONLY) = hd (renderDiffRequest from WORKING_TREE)"
  by (simp add: render_staged_only render_working_tree)

end
